theory Spec2Isabelle
  imports Main
begin

section \<open>JavaScript values and strings\<close>

text \<open>
  The tool is JavaScript. A JavaScript string is modelled as a \<^typ>\<open>string\<close>, each
  \<^typ>\<open>char\<close> standing for one code unit below 256. The values that reach the
  validators are the token array that the command line hands over
  (\<^verbatim>\<open><name...>\<close>), a plain string (\<^verbatim>\<open><branch>\<close>, a configuration field), or
  \<^verbatim>\<open>undefined\<close> (the first element of an empty array); the branch-name validator
  returns a boolean.
\<close>

datatype jsval = JSUndefined | JSBool bool | JSString string | JSArray "string list"

text \<open>\<^verbatim>\<open>Array.prototype.join\<close> on an array of strings.\<close>

fun join :: "string \<Rightarrow> string list \<Rightarrow> string" where
  "join sep [] = []"
| "join sep [x] = x"
| "join sep (x # y # ys) = x @ sep @ join sep (y # ys)"

text \<open>
  The conversion to a string that a template literal \<^verbatim>\<open>`${v}`\<close> and
  \<^verbatim>\<open>RegExp.prototype.test(v)\<close> apply to their argument.
\<close>

fun toString :: "jsval \<Rightarrow> string" where
  "toString JSUndefined = ''undefined''"
| "toString (JSBool True) = ''true''"
| "toString (JSBool False) = ''false''"
| "toString (JSString s) = s"
| "toString (JSArray xs) = join '','' xs"

text \<open>\<^verbatim>\<open>Array.isArray(v)\<close>, \<^verbatim>\<open>v?.length\<close> of an array and \<^verbatim>\<open>v[0]\<close>.\<close>

fun isArray :: "jsval \<Rightarrow> bool" where
  "isArray (JSArray xs) = True"
| "isArray v = False"

fun first_elem :: "string list \<Rightarrow> jsval" where
  "first_elem [] = JSUndefined"
| "first_elem (x # xs) = JSString x"

definition code_unit :: "char \<Rightarrow> nat" where
  "code_unit c = of_char c"

definition in_range :: "char \<Rightarrow> char \<Rightarrow> char \<Rightarrow> bool" where
  "in_range lo hi c = (code_unit lo \<le> code_unit c \<and> code_unit c \<le> code_unit hi)"

text \<open>
  \<^verbatim>\<open>String.prototype.trim\<close> strips white space and line terminators at both ends; below
  256 these are the code units 9 to 13, 32 and 160.
\<close>

definition is_js_space :: "char \<Rightarrow> bool" where
  "is_js_space c = (code_unit c \<in> {9, 10, 11, 12, 13, 32, 160})"

definition trim :: "string \<Rightarrow> string" where
  "trim s = rev (dropWhile is_js_space (rev (dropWhile is_js_space s)))"

text \<open>\<^verbatim>\<open>s.split(c)\<close> for a one-character separator: \<^verbatim>\<open>''.split('\n')\<close> is \<^verbatim>\<open>['']\<close>.\<close>

fun split :: "char \<Rightarrow> string \<Rightarrow> string list" where
  "split c [] = [[]]"
| "split c (x # xs) =
     (if x = c then [] # split c xs
      else (case split c xs of [] \<Rightarrow> [[x]] | y # ys \<Rightarrow> (x # y) # ys))"

section \<open>Regular expressions\<close>

text \<open>
  The two patterns of the source use character classes, alternation, concatenation and
  \<^verbatim>\<open>*\<close> only, so \<^verbatim>\<open>test\<close> on an anchored pattern \<^verbatim>\<open>/^r$/\<close> is membership of the whole
  string in the language of \<^verbatim>\<open>r\<close>. A class is a list of inclusive ranges. The matcher
  works by derivatives: \<open>deriv c r\<close> matches what \<open>r\<close> matches after a leading \<open>c\<close>.
\<close>

datatype regex =
    Never
  | Empty
  | Class "(char \<times> char) list"
  | Alt regex regex
  | Seq regex regex
  | Star regex

fun in_class :: "(char \<times> char) list \<Rightarrow> char \<Rightarrow> bool" where
  "in_class [] c = False"
| "in_class ((lo, hi) # rs) c = (in_range lo hi c \<or> in_class rs c)"

fun nullable :: "regex \<Rightarrow> bool" where
  "nullable Never = False"
| "nullable Empty = True"
| "nullable (Class rs) = False"
| "nullable (Alt r s) = (nullable r \<or> nullable s)"
| "nullable (Seq r s) = (nullable r \<and> nullable s)"
| "nullable (Star r) = True"

fun deriv :: "char \<Rightarrow> regex \<Rightarrow> regex" where
  "deriv c Never = Never"
| "deriv c Empty = Never"
| "deriv c (Class rs) = (if in_class rs c then Empty else Never)"
| "deriv c (Alt r s) = Alt (deriv c r) (deriv c s)"
| "deriv c (Seq r s) =
     (if nullable r then Alt (Seq (deriv c r) s) (deriv c s) else Seq (deriv c r) s)"
| "deriv c (Star r) = Seq (deriv c r) (Star r)"

fun test_anchored :: "regex \<Rightarrow> string \<Rightarrow> bool" where
  "test_anchored r [] = nullable r"
| "test_anchored r (c # cs) = test_anchored (deriv c r) cs"

text \<open>The language of a pattern, to say what the matcher decides.\<close>

inductive_set reps :: "string set \<Rightarrow> string set" for A :: "string set" where
  reps_nil: "[] \<in> reps A"
| reps_app: "u \<in> A \<Longrightarrow> v \<in> reps A \<Longrightarrow> u @ v \<in> reps A"

fun lang :: "regex \<Rightarrow> string set" where
  "lang Never = {}"
| "lang Empty = {[]}"
| "lang (Class rs) = {[c] | c. in_class rs c}"
| "lang (Alt r s) = lang r \<union> lang s"
| "lang (Seq r s) = {u @ v | u v. u \<in> lang r \<and> v \<in> lang s}"
| "lang (Star r) = reps (lang r)"

section \<open>utils.js\<close>

text \<open>
  \<^verbatim>\<open>
  export function validateVersion(version) {
    const versionRegex = /^(0|[1-9]\d*)\.(0|[1-9]\d*)\.(0|[1-9]\d*)$/;
    return versionRegex.test(version);
  }
  \<close>
  \<^verbatim>\<open>\d\<close> is \<^verbatim>\<open>[0-9]\<close>; \<open>numberRegex\<close> is the group \<^verbatim>\<open>(0|[1-9]\d*)\<close>.
\<close>

definition numberRegex :: regex where
  "numberRegex =
     Alt (Class [(CHR ''0'', CHR ''0'')])
         (Seq (Class [(CHR ''1'', CHR ''9'')]) (Star (Class [(CHR ''0'', CHR ''9'')])))"

definition dotRegex :: regex where
  "dotRegex = Class [(CHR ''.'', CHR ''.'')]"

definition versionRegex :: regex where
  "versionRegex =
     Seq numberRegex (Seq dotRegex (Seq numberRegex (Seq dotRegex numberRegex)))"

definition validateVersion :: "jsval \<Rightarrow> bool" where
  "validateVersion version = test_anchored versionRegex (toString version)"

section \<open>Errors\<close>

text \<open>
  Every failure of the tool is \<^verbatim>\<open>exitWithError(message)\<close>, which prints the message and
  ends the process with status 1 (\<^verbatim>\<open>process.exit(1)\<close>). One constructor stands for each
  message; \<open>DebugMode\<close> is the bare \<^verbatim>\<open>exit()\<close> of \<^verbatim>\<open>runCommands\<close> in debug mode.
\<close>

datatype error =
    CannotContainSpaces string  \<comment> \<open>Branch name '...' cannot contain spaces.\<close>
  | InvalidBranchName string    \<comment> \<open>Invalid branch name '...'.\<close>
  | InvalidVersion string       \<comment> \<open>'...' is not a valid version number\<close>
  | AlreadyExists string        \<comment> \<open>... already exists\<close>
  | DoesNotExist string         \<comment> \<open>... does not exist\<close>
  | NoCommitsYet string         \<comment> \<open>No commits yet on ...\<close>
  | UncommittedChanges          \<comment> \<open>Uncommitted changes exist. ...\<close>
  | MergeConflicts              \<comment> \<open>Please resolve merge conflicts and try again\<close>
  | MainBranchNotFound          \<comment> \<open>Main branch is not found in the configuration\<close>
  | DevelopBranchNotFound       \<comment> \<open>Develop branch is not found in the configuration\<close>
  | StagingNotEnabled           \<comment> \<open>Staging branch is not enabled in the configuration\<close>
  | StagingBranchNotFound       \<comment> \<open>Staging branch is not found in the configuration\<close>
  | ShellFailure string         \<comment> \<open>the stderr (or stdout) of a failed backend call\<close>
  | DebugMode

text \<open>
  The source has this one kind of failure. The specification sorts the failures into
  classes by what the message reports: a rejected name or version, a state of the
  repository that forbids the operation, unresolved conflicts, a failed backend call,
  a missing configuration field.
\<close>

datatype error_class =
    ValidationError | StateError | MergeConflictError | CommandExecutionError
  | ConfigurationError | DryRunExit

fun class_of :: "error \<Rightarrow> error_class" where
  "class_of (CannotContainSpaces s) = ValidationError"
| "class_of (InvalidBranchName s) = ValidationError"
| "class_of (InvalidVersion s) = ValidationError"
| "class_of (AlreadyExists b) = StateError"
| "class_of (DoesNotExist b) = StateError"
| "class_of (NoCommitsYet b) = StateError"
| "class_of UncommittedChanges = StateError"
| "class_of MergeConflicts = MergeConflictError"
| "class_of MainBranchNotFound = ConfigurationError"
| "class_of DevelopBranchNotFound = ConfigurationError"
| "class_of StagingNotEnabled = ConfigurationError"
| "class_of StagingBranchNotFound = ConfigurationError"
| "class_of (ShellFailure m) = CommandExecutionError"
| "class_of DebugMode = DryRunExit"

section \<open>GitFlow.js: validation\<close>

text \<open>
  \<^verbatim>\<open>
  isValidVersion(version) {
    if (version?.length > 1) exitWithError(`Branch name '${version.join(' ')}' cannot contain spaces.`);
    if (!validateVersion(version[0])) exitWithError(`'${version}' is not a valid version number`);
    return version[0];
  }
  \<close>
  The argument is the token array of \<^verbatim>\<open>release:start <version...>\<close>.
\<close>

definition isValidVersion :: "string list \<Rightarrow> error + jsval" where
  "isValidVersion version =
     (if length version > 1 then Inl (CannotContainSpaces (join '' '' version))
      else if \<not> validateVersion (first_elem version)
        then Inl (InvalidVersion (toString (JSArray version)))
      else Inr (first_elem version))"

text \<open>
  \<^verbatim>\<open>
  static isValidBranchName(branchName) {
    const isArray = Array.isArray(branchName);
    if (isArray && branchName?.length > 1) {
      exitWithError(`Branch name '${branchName.join(' ')}' cannot contain spaces.`);
    }
    branchName = isArray ? branchName[0] : branchName;
    const invalidChars = /[^a-zA-Z0-9-_./]/;
    const isValid = !invalidChars.test(branchName);
    if (!isValid) {
      exitWithError(`Invalid branch name '${branchName}'. ...`);
    }
    return isValid;
  }
  \<close>
  The pattern is not anchored and consists of one negated class, so \<^verbatim>\<open>test\<close> holds
  exactly when some code unit of the string lies outside the class.
\<close>

definition allowedChars :: "(char \<times> char) list" where
  "allowedChars =
     [(CHR ''a'', CHR ''z''), (CHR ''A'', CHR ''Z''), (CHR ''0'', CHR ''9''),
      (CHR ''-'', CHR ''-''), (CHR ''_'', CHR ''_''), (CHR ''.'', CHR ''.''),
      (CHR ''/'', CHR ''/'')]"

definition invalidChars_test :: "jsval \<Rightarrow> bool" where
  "invalidChars_test v = list_ex (\<lambda>c. \<not> in_class allowedChars c) (toString v)"

fun array_items :: "jsval \<Rightarrow> string list" where
  "array_items (JSArray xs) = xs"
| "array_items v = []"

definition isValidBranchName :: "jsval \<Rightarrow> error + bool" where
  "isValidBranchName branchName =
     (if isArray branchName \<and> length (array_items branchName) > 1
        then Inl (CannotContainSpaces (join '' '' (array_items branchName)))
      else
        let branchName' =
              (if isArray branchName then first_elem (array_items branchName) else branchName);
            isValid = \<not> invalidChars_test branchName'
        in if \<not> isValid then Inl (InvalidBranchName (toString branchName'))
           else Inr isValid)"

section \<open>Configuration, backend and controller state\<close>

record prefixes =
  feature :: string
  release :: string
  bugfix :: string
  hotfix :: string

text \<open>
  The configuration object after loading; \<^verbatim>\<open>stagingBranch\<close> may be absent. It is not
  changed by any lifecycle operation.
\<close>

record config =
  mainBranch :: string
  developBranch :: string
  useStaging :: bool
  stagingBranch :: "string option"
  pushBranches :: bool
  createBranches :: bool
  debug :: bool
  prefixes :: prefixes

definition stagingBranchVal :: "config \<Rightarrow> jsval" where
  "stagingBranchVal cfg = (case stagingBranch cfg of None \<Rightarrow> JSUndefined | Some s \<Rightarrow> JSString s)"

record shell_result =
  code :: int
  stdout :: string
  stderr :: string

text \<open>
  \<^verbatim>\<open>shell.exec(command, { silent: true })\<close> runs a command line against the repository
  \<open>'w\<close> and returns its result and the repository afterwards.
\<close>

type_synonym 'w shell = "string \<Rightarrow> 'w \<Rightarrow> shell_result \<times> 'w"

text \<open>
  The fields of a \<^verbatim>\<open>GitFlow\<close> instance that change: the queue \<^verbatim>\<open>this.commands\<close>.
  With it travel the repository and the log of the commands that \<^verbatim>\<open>runCommands\<close> has
  handed to the shell, in order.
\<close>

record 'w gitflow =
  commands :: "string list"
  world :: 'w
  executed :: "string list"

text \<open>
  An operation either ends the process (\<open>Exited\<close>, with the state at that moment) or
  returns a value.
\<close>

datatype ('a, 'w) outcome = Exited error "'w gitflow" | Returned 'a "'w gitflow"

definition andThen ::
  "('a, 'w) outcome \<Rightarrow> ('a \<Rightarrow> 'w gitflow \<Rightarrow> ('b, 'w) outcome) \<Rightarrow> ('b, 'w) outcome" where
  "andThen m f = (case m of Exited e g \<Rightarrow> Exited e g | Returned x g \<Rightarrow> f x g)"

definition lift :: "error + 'a \<Rightarrow> 'w gitflow \<Rightarrow> ('a, 'w) outcome" where
  "lift r g = (case r of Inl e \<Rightarrow> Exited e g | Inr x \<Rightarrow> Returned x g)"

text \<open>\<^verbatim>\<open>constructor\<close>: a new instance has an empty queue.\<close>

definition new_GitFlow :: "'w \<Rightarrow> 'w gitflow" where
  "new_GitFlow w = \<lparr>commands = [], world = w, executed = []\<rparr>"

definition addCommand :: "string \<Rightarrow> 'w gitflow \<Rightarrow> 'w gitflow" where
  "addCommand command g = g\<lparr>commands := commands g @ [command]\<rparr>"

section \<open>GitFlow.js: queries\<close>

text \<open>
  The queries call the shell at once and read its answer. They are git's read-only
  commands (\<^verbatim>\<open>branch --show-current\<close>, \<^verbatim>\<open>rev-parse\<close>, \<^verbatim>\<open>diff\<close>, \<^verbatim>\<open>status\<close>):
  the repository after them is the repository before.
\<close>

definition query :: "'w shell \<Rightarrow> 'w gitflow \<Rightarrow> string \<Rightarrow> shell_result" where
  "query sh g command = fst (sh command (world g))"

definition getCurrentBranchName :: "'w shell \<Rightarrow> 'w gitflow \<Rightarrow> string" where
  "getCurrentBranchName sh g = trim (stdout (query sh g ''git branch --show-current''))"

definition branchExistsLocal :: "'w shell \<Rightarrow> 'w gitflow \<Rightarrow> string \<Rightarrow> bool" where
  "branchExistsLocal sh g branch = (code (query sh g (''git rev-parse --verify '' @ branch)) = 0)"

definition branchesMatch :: "'w shell \<Rightarrow> 'w gitflow \<Rightarrow> string \<Rightarrow> string \<Rightarrow> bool" where
  "branchesMatch sh g branch1 branch2 =
     (let branch1Hash = trim (stdout (query sh g (''git rev-parse '' @ branch1)));
          branch2Hash = trim (stdout (query sh g (''git rev-parse '' @ branch2)))
      in branch1Hash = branch2Hash)"

text \<open>
  \<^verbatim>\<open>
  checkMergeConflicts() {
    const { stdout, stderr } = shell.exec('git diff --name-only --diff-filter=U', { silent: true });
    if (stderr) { exitWithError(stderr); }
    const conflicts = stdout.trim().split('\n').filter((file) => file);
    if (conflicts.length > 0) { ...; return true; }
    return false;
  }
  \<close>
\<close>

definition checkMergeConflicts :: "'w shell \<Rightarrow> 'w gitflow \<Rightarrow> (bool, 'w) outcome" where
  "checkMergeConflicts sh g =
     (let r = query sh g ''git diff --name-only --diff-filter=U'' in
      if stderr r \<noteq> [] then Exited (ShellFailure (stderr r)) g
      else
        let conflicts = filter (\<lambda>file. file \<noteq> []) (split (CHR 0x0A) (trim (stdout r)))
        in if length conflicts > 0 then Returned True g else Returned False g)"

definition checkWorkingTreeClean :: "'w shell \<Rightarrow> 'w gitflow \<Rightarrow> (bool, 'w) outcome" where
  "checkWorkingTreeClean sh g =
     (let result = query sh g ''git status --porcelain'' in
      if trim (stdout result) \<noteq> [] then Exited UncommittedChanges g
      else Returned True g)"

section \<open>GitFlow.js: queueing operations\<close>

text \<open>
  \<^verbatim>\<open>
  checkoutBranch(branch) {
    const currentBranch = this.getCurrentBranchName();
    if (currentBranch === branch) return;
    if (!this.branchExistsLocal(branch)) { exitWithError(`${branch} does not exist`); }
    this.checkWorkingTreeClean();
    this.addCommand(`git checkout ${branch}`);
    this.addCommand(`git pull`);
  }
  \<close>
\<close>

definition checkoutBranch :: "'w shell \<Rightarrow> string \<Rightarrow> 'w gitflow \<Rightarrow> (unit, 'w) outcome" where
  "checkoutBranch sh branch g =
     (let currentBranch = getCurrentBranchName sh g in
      if currentBranch = branch then Returned () g
      else if \<not> branchExistsLocal sh g branch then Exited (DoesNotExist branch) g
      else andThen (checkWorkingTreeClean sh g) (\<lambda>_ g.
        Returned () (addCommand ''git pull'' (addCommand (''git checkout '' @ branch) g))))"

text \<open>
  \<^verbatim>\<open>!this.config.mainBranch\<close> holds for the empty string. The three helpers repeat
  the comparison with the current branch before they call \<^verbatim>\<open>checkoutBranch\<close>.
\<close>

definition checkoutToMain :: "'w shell \<Rightarrow> config \<Rightarrow> 'w gitflow \<Rightarrow> (unit, 'w) outcome" where
  "checkoutToMain sh cfg g =
     (if mainBranch cfg = [] then Exited MainBranchNotFound g
      else if mainBranch cfg = getCurrentBranchName sh g then Returned () g
      else checkoutBranch sh (mainBranch cfg) g)"

definition checkoutToDevelop :: "'w shell \<Rightarrow> config \<Rightarrow> 'w gitflow \<Rightarrow> (unit, 'w) outcome" where
  "checkoutToDevelop sh cfg g =
     (if developBranch cfg = [] then Exited DevelopBranchNotFound g
      else
        let currentBranch = getCurrentBranchName sh g in
        if developBranch cfg = currentBranch then Returned () g
        else checkoutBranch sh (developBranch cfg) g)"

definition checkoutToStaging :: "'w shell \<Rightarrow> config \<Rightarrow> 'w gitflow \<Rightarrow> (unit, 'w) outcome" where
  "checkoutToStaging sh cfg g =
     (if \<not> useStaging cfg then Exited StagingNotEnabled g
      else if stagingBranch cfg = None \<or> stagingBranch cfg = Some [] then Exited StagingBranchNotFound g
      else if toString (stagingBranchVal cfg) = getCurrentBranchName sh g then Returned () g
      else checkoutBranch sh (toString (stagingBranchVal cfg)) g)"

definition createBranch ::
  "'w shell \<Rightarrow> string \<Rightarrow> string \<Rightarrow> 'w gitflow \<Rightarrow> (unit, 'w) outcome" where
  "createBranch sh branchName fromBranch g =
     (if branchExistsLocal sh g branchName then Exited (AlreadyExists branchName) g
      else Returned () (addCommand (''git checkout -b '' @ branchName @ '' '' @ fromBranch) g))"

text \<open>
  \<^verbatim>\<open>
  pushBranch() {
    const currentBranch = this.getCurrentBranchName();
    this.addCommand(`git push origin ${currentBranch}`);
  }
  \<close>
\<close>

definition pushBranch :: "'w shell \<Rightarrow> 'w gitflow \<Rightarrow> (unit, 'w) outcome" where
  "pushBranch sh g =
     (let currentBranch = getCurrentBranchName sh g in
      Returned () (addCommand (''git push origin '' @ currentBranch) g))"

text \<open>
  \<^verbatim>\<open>
  mergeBranch(sourceBranch, targetBranch) {
    this.addCommand(`git checkout ${targetBranch}`);
    this.addCommand(`git merge --no-ff ${sourceBranch}`);
    if (this.checkMergeConflicts()) { exitWithError('Please resolve merge conflicts and try again'); }
    if (this.config.pushBranches) this.pushBranch();
  }
  \<close>
\<close>

definition mergeBranch ::
  "'w shell \<Rightarrow> config \<Rightarrow> string \<Rightarrow> string \<Rightarrow> 'w gitflow \<Rightarrow> (unit, 'w) outcome" where
  "mergeBranch sh cfg sourceBranch targetBranch g =
     (let g1 = addCommand (''git checkout '' @ targetBranch) g;
          g2 = addCommand (''git merge --no-ff '' @ sourceBranch) g1
      in andThen (checkMergeConflicts sh g2) (\<lambda>conflicts g.
           if conflicts then Exited MergeConflicts g
           else if pushBranches cfg then pushBranch sh g
           else Returned () g))"

definition deleteBranch :: "'w shell \<Rightarrow> config \<Rightarrow> string \<Rightarrow> 'w gitflow \<Rightarrow> (unit, 'w) outcome" where
  "deleteBranch sh cfg branchName g =
     (if \<not> branchExistsLocal sh g branchName then Exited (DoesNotExist branchName) g
      else
        let g1 = addCommand (''git branch -d '' @ branchName) g in
        if pushBranches cfg
          then Returned () (addCommand (''git push origin --delete '' @ branchName) g1)
        else Returned () g1)"

text \<open>
  \<^verbatim>\<open>this.addCommand(`git tag -a v${version} -m "v${version}"`)\<close>; the double quote is
  the code unit 0x22.
\<close>

definition addTag :: "string \<Rightarrow> 'w gitflow \<Rightarrow> (unit, 'w) outcome" where
  "addTag version g =
     Returned ()
       (addCommand (''git tag -a v'' @ version @ '' -m '' @ [CHR 0x22] @ ''v'' @ version @ [CHR 0x22]) g)"

section \<open>GitFlow.js: running the queue\<close>

text \<open>
  \<^verbatim>\<open>
  runCommands() {
    if (this.config.debug) { exit(); }
    for (const command of this.commands) {
      const result = shell.exec(command, { silent: true });
      if (result.code !== 0) {
        exitWithError(`${result.stderr === '' ? result.stdout : result.stderr}`);
      }
    }
  }
  \<close>
  \<^verbatim>\<open>process.exit\<close> does not throw, so the surrounding \<^verbatim>\<open>try\<close> catches nothing of it.
\<close>

fun run_queue :: "'w shell \<Rightarrow> string list \<Rightarrow> 'w gitflow \<Rightarrow> (unit, 'w) outcome" where
  "run_queue sh [] g = Returned () g"
| "run_queue sh (command # rest) g =
     (let result = fst (sh command (world g));
          g' = g\<lparr>world := snd (sh command (world g)), executed := executed g @ [command]\<rparr>
      in if code result \<noteq> 0
           then Exited (ShellFailure (if stderr result = [] then stdout result else stderr result)) g'
         else run_queue sh rest g')"

definition runCommands :: "'w shell \<Rightarrow> config \<Rightarrow> 'w gitflow \<Rightarrow> (unit, 'w) outcome" where
  "runCommands sh cfg g =
     (if debug cfg then Exited DebugMode g else run_queue sh (commands g) g)"

section \<open>GitFlow.js: the lifecycle workflows\<close>

text \<open>
  \<^verbatim>\<open>
  startFeature(name) {
    name = GitFlow.isValidBranchName(name);
    const featureBranchName = `${this.config.prefixes.feature}${name}`;
    if (this.branchExistsLocal(featureBranchName)) { exitWithError(`${featureBranchName} already exists`); }
    this.checkoutToDevelop();
    this.createBranch(featureBranchName, this.config.developBranch);
    this.runCommands();
  }
  \<close>
  \<^verbatim>\<open>name\<close> is rebound to what the validator returns, and the template literal converts
  that value to a string. The other three start methods differ in the validator
  (\<^verbatim>\<open>startRelease\<close>), the prefix and the base branch (\<^verbatim>\<open>startHotfix\<close>).
\<close>

definition startFeature :: "'w shell \<Rightarrow> config \<Rightarrow> jsval \<Rightarrow> 'w gitflow \<Rightarrow> (unit, 'w) outcome" where
  "startFeature sh cfg name g =
     andThen (lift (isValidBranchName name) g) (\<lambda>name g.
       let featureBranchName = feature (prefixes cfg) @ toString (JSBool name) in
       if branchExistsLocal sh g featureBranchName then Exited (AlreadyExists featureBranchName) g
       else
         andThen (checkoutToDevelop sh cfg g) (\<lambda>_ g.
         andThen (createBranch sh featureBranchName (developBranch cfg) g) (\<lambda>_ g.
         runCommands sh cfg g)))"

definition startRelease ::
  "'w shell \<Rightarrow> config \<Rightarrow> string list \<Rightarrow> 'w gitflow \<Rightarrow> (unit, 'w) outcome" where
  "startRelease sh cfg version g =
     andThen (lift (isValidVersion version) g) (\<lambda>version g.
       let releaseBranchName = release (prefixes cfg) @ toString version in
       if branchExistsLocal sh g releaseBranchName then Exited (AlreadyExists releaseBranchName) g
       else
         andThen (checkoutToDevelop sh cfg g) (\<lambda>_ g.
         andThen (createBranch sh releaseBranchName (developBranch cfg) g) (\<lambda>_ g.
         runCommands sh cfg g)))"

definition startBugfix :: "'w shell \<Rightarrow> config \<Rightarrow> jsval \<Rightarrow> 'w gitflow \<Rightarrow> (unit, 'w) outcome" where
  "startBugfix sh cfg name g =
     andThen (lift (isValidBranchName name) g) (\<lambda>name g.
       let bugfixBranchName = bugfix (prefixes cfg) @ toString (JSBool name) in
       if branchExistsLocal sh g bugfixBranchName then Exited (AlreadyExists bugfixBranchName) g
       else
         andThen (checkoutToDevelop sh cfg g) (\<lambda>_ g.
         andThen (createBranch sh bugfixBranchName (developBranch cfg) g) (\<lambda>_ g.
         runCommands sh cfg g)))"

definition startHotfix :: "'w shell \<Rightarrow> config \<Rightarrow> jsval \<Rightarrow> 'w gitflow \<Rightarrow> (unit, 'w) outcome" where
  "startHotfix sh cfg name g =
     andThen (lift (isValidBranchName name) g) (\<lambda>name g.
       let hotfixBranchName = hotfix (prefixes cfg) @ toString (JSBool name) in
       if branchExistsLocal sh g hotfixBranchName then Exited (AlreadyExists hotfixBranchName) g
       else
         andThen (checkoutToMain sh cfg g) (\<lambda>_ g.
         andThen (createBranch sh hotfixBranchName (mainBranch cfg) g) (\<lambda>_ g.
         runCommands sh cfg g)))"

text \<open>
  \<^verbatim>\<open>
  finishFeature(name) {
    name = GitFlow.isValidBranchName(name);
    const featureBranchName = `${this.config.prefixes.feature}${name}`;
    if (!this.branchExistsLocal(featureBranchName)) { exitWithError(`${featureBranchName} does not exist`); }
    if (this.branchesMatch(featureBranchName, this.config.developBranch)) {
      exitWithError(`No commits yet on ${featureBranchName}`);
    }
    this.checkoutToDevelop();
    this.mergeBranch(featureBranchName, this.config.developBranch);
    if (this.config.useStaging) {
      this.checkoutToStaging();
      this.mergeBranch(featureBranchName, this.config.stagingBranch);
    }
    this.deleteBranch(featureBranchName);
    this.runCommands();
  }
  \<close>
  \<open>merge_to_staging\<close> is the \<^verbatim>\<open>if (this.config.useStaging) { ... }\<close> block, which
  the four finish methods have word for word.
\<close>

definition merge_to_staging ::
  "'w shell \<Rightarrow> config \<Rightarrow> string \<Rightarrow> 'w gitflow \<Rightarrow> (unit, 'w) outcome" where
  "merge_to_staging sh cfg branchName g =
     (if useStaging cfg
        then andThen (checkoutToStaging sh cfg g) (\<lambda>_ g.
               mergeBranch sh cfg branchName (toString (stagingBranchVal cfg)) g)
      else Returned () g)"

definition finishFeature :: "'w shell \<Rightarrow> config \<Rightarrow> jsval \<Rightarrow> 'w gitflow \<Rightarrow> (unit, 'w) outcome" where
  "finishFeature sh cfg name g =
     andThen (lift (isValidBranchName name) g) (\<lambda>name g.
       let featureBranchName = feature (prefixes cfg) @ toString (JSBool name) in
       if \<not> branchExistsLocal sh g featureBranchName then Exited (DoesNotExist featureBranchName) g
       else if branchesMatch sh g featureBranchName (developBranch cfg)
         then Exited (NoCommitsYet featureBranchName) g
       else
         andThen (checkoutToDevelop sh cfg g) (\<lambda>_ g.
         andThen (mergeBranch sh cfg featureBranchName (developBranch cfg) g) (\<lambda>_ g.
         andThen (merge_to_staging sh cfg featureBranchName g) (\<lambda>_ g.
         andThen (deleteBranch sh cfg featureBranchName g) (\<lambda>_ g.
         runCommands sh cfg g)))))"

text \<open>
  \<^verbatim>\<open>
  finishRelease(version) {
    version = this.isValidVersion(version);
    const releaseBranchName = `${this.config.prefixes.release}${version}`;
    if (!this.branchExistsLocal(releaseBranchName)) { exitWithError(`${releaseBranchName} does not exist`); }
    this.checkoutToMain();
    this.mergeBranch(releaseBranchName, this.config.mainBranch);
    this.addTag(version);
    this.checkoutToDevelop();
    this.mergeBranch(releaseBranchName, this.config.developBranch);
    if (this.config.useStaging) { ... }
    this.deleteBranch(releaseBranchName);
    this.runCommands();
  }
  \<close>
\<close>

definition finishRelease ::
  "'w shell \<Rightarrow> config \<Rightarrow> string list \<Rightarrow> 'w gitflow \<Rightarrow> (unit, 'w) outcome" where
  "finishRelease sh cfg version g =
     andThen (lift (isValidVersion version) g) (\<lambda>version g.
       let releaseBranchName = release (prefixes cfg) @ toString version in
       if \<not> branchExistsLocal sh g releaseBranchName then Exited (DoesNotExist releaseBranchName) g
       else
         andThen (checkoutToMain sh cfg g) (\<lambda>_ g.
         andThen (mergeBranch sh cfg releaseBranchName (mainBranch cfg) g) (\<lambda>_ g.
         andThen (addTag (toString version) g) (\<lambda>_ g.
         andThen (checkoutToDevelop sh cfg g) (\<lambda>_ g.
         andThen (mergeBranch sh cfg releaseBranchName (developBranch cfg) g) (\<lambda>_ g.
         andThen (merge_to_staging sh cfg releaseBranchName g) (\<lambda>_ g.
         andThen (deleteBranch sh cfg releaseBranchName g) (\<lambda>_ g.
         runCommands sh cfg g))))))))"

definition finishBugfix :: "'w shell \<Rightarrow> config \<Rightarrow> jsval \<Rightarrow> 'w gitflow \<Rightarrow> (unit, 'w) outcome" where
  "finishBugfix sh cfg name g =
     andThen (lift (isValidBranchName name) g) (\<lambda>name g.
       let bugfixBranchName = bugfix (prefixes cfg) @ toString (JSBool name) in
       if \<not> branchExistsLocal sh g bugfixBranchName then Exited (DoesNotExist bugfixBranchName) g
       else if branchesMatch sh g bugfixBranchName (developBranch cfg)
         then Exited (NoCommitsYet bugfixBranchName) g
       else
         andThen (checkoutToDevelop sh cfg g) (\<lambda>_ g.
         andThen (mergeBranch sh cfg bugfixBranchName (developBranch cfg) g) (\<lambda>_ g.
         andThen (merge_to_staging sh cfg bugfixBranchName g) (\<lambda>_ g.
         andThen (deleteBranch sh cfg bugfixBranchName g) (\<lambda>_ g.
         runCommands sh cfg g)))))"

text \<open>
  \<^verbatim>\<open>finishHotfix\<close> compares with \<^verbatim>\<open>mainBranch\<close> and merges into main, then develop:
  \<^verbatim>\<open>
    this.checkoutToMain();
    this.mergeBranch(hotfixBranchName, this.config.mainBranch);
    this.checkoutToDevelop();
    this.mergeBranch(hotfixBranchName, this.config.developBranch);
  \<close>
\<close>

definition finishHotfix :: "'w shell \<Rightarrow> config \<Rightarrow> jsval \<Rightarrow> 'w gitflow \<Rightarrow> (unit, 'w) outcome" where
  "finishHotfix sh cfg name g =
     andThen (lift (isValidBranchName name) g) (\<lambda>name g.
       let hotfixBranchName = hotfix (prefixes cfg) @ toString (JSBool name) in
       if \<not> branchExistsLocal sh g hotfixBranchName then Exited (DoesNotExist hotfixBranchName) g
       else if branchesMatch sh g hotfixBranchName (mainBranch cfg)
         then Exited (NoCommitsYet hotfixBranchName) g
       else
         andThen (checkoutToMain sh cfg g) (\<lambda>_ g.
         andThen (mergeBranch sh cfg hotfixBranchName (mainBranch cfg) g) (\<lambda>_ g.
         andThen (checkoutToDevelop sh cfg g) (\<lambda>_ g.
         andThen (mergeBranch sh cfg hotfixBranchName (developBranch cfg) g) (\<lambda>_ g.
         andThen (merge_to_staging sh cfg hotfixBranchName g) (\<lambda>_ g.
         andThen (deleteBranch sh cfg hotfixBranchName g) (\<lambda>_ g.
         runCommands sh cfg g)))))))"

section \<open>The command line\<close>

text \<open>
  Each command builds a new instance and calls one method on it, with the token array
  of a variadic argument (\<^verbatim>\<open><name...>\<close>) or the string of a plain one (\<^verbatim>\<open><branch>\<close>):
  \<^verbatim>\<open>
  .command('feature:start <name...>').action((name) => new GitFlow().startFeature(name));
  .command('switch <branch>').action((branch) => new GitFlow().checkoutBranch(branch));
  \<close>
  The configuration \<open>cfg\<close> is the one the constructor has loaded.
\<close>

datatype kind = Feature | Release | Bugfix | Hotfix

fun start :: "'w shell \<Rightarrow> config \<Rightarrow> kind \<Rightarrow> string list \<Rightarrow> 'w \<Rightarrow> (unit, 'w) outcome" where
  "start sh cfg Feature name w = startFeature sh cfg (JSArray name) (new_GitFlow w)"
| "start sh cfg Release version w = startRelease sh cfg version (new_GitFlow w)"
| "start sh cfg Bugfix name w = startBugfix sh cfg (JSArray name) (new_GitFlow w)"
| "start sh cfg Hotfix name w = startHotfix sh cfg (JSArray name) (new_GitFlow w)"

fun finish :: "'w shell \<Rightarrow> config \<Rightarrow> kind \<Rightarrow> string list \<Rightarrow> 'w \<Rightarrow> (unit, 'w) outcome" where
  "finish sh cfg Feature name w = finishFeature sh cfg (JSArray name) (new_GitFlow w)"
| "finish sh cfg Release version w = finishRelease sh cfg version (new_GitFlow w)"
| "finish sh cfg Bugfix name w = finishBugfix sh cfg (JSArray name) (new_GitFlow w)"
| "finish sh cfg Hotfix name w = finishHotfix sh cfg (JSArray name) (new_GitFlow w)"

definition switch :: "'w shell \<Rightarrow> string \<Rightarrow> 'w \<Rightarrow> (unit, 'w) outcome" where
  "switch sh branch w = checkoutBranch sh branch (new_GitFlow w)"

section \<open>Vocabulary of the properties\<close>

text \<open>
  What each start and finish method computes first: the validated value, the prefix of
  its kind, and the base branch it checks out and branches from.
\<close>

fun validate :: "kind \<Rightarrow> string list \<Rightarrow> error + jsval" where
  "validate Release tokens = isValidVersion tokens"
| "validate k tokens = map_sum id JSBool (isValidBranchName (JSArray tokens))"

fun prefix_of :: "config \<Rightarrow> kind \<Rightarrow> string" where
  "prefix_of cfg Feature = feature (prefixes cfg)"
| "prefix_of cfg Release = release (prefixes cfg)"
| "prefix_of cfg Bugfix = bugfix (prefixes cfg)"
| "prefix_of cfg Hotfix = hotfix (prefixes cfg)"

fun base_of :: "config \<Rightarrow> kind \<Rightarrow> string" where
  "base_of cfg Hotfix = mainBranch cfg"
| "base_of cfg k = developBranch cfg"

text \<open>
  The branch of the first merge step of each finish method, and the comparison of
  hashes each makes before it: \<^verbatim>\<open>finishFeature\<close> and \<^verbatim>\<open>finishBugfix\<close> compare with
  \<^verbatim>\<open>developBranch\<close>, \<^verbatim>\<open>finishHotfix\<close> with \<^verbatim>\<open>mainBranch\<close>, \<^verbatim>\<open>finishRelease\<close>
  compares nothing.
\<close>

fun first_target :: "config \<Rightarrow> kind \<Rightarrow> string" where
  "first_target cfg Feature = developBranch cfg"
| "first_target cfg Bugfix = developBranch cfg"
| "first_target cfg k = mainBranch cfg"

fun no_commits :: "'w shell \<Rightarrow> config \<Rightarrow> kind \<Rightarrow> 'w gitflow \<Rightarrow> string \<Rightarrow> bool" where
  "no_commits sh cfg Release g branchName = False"
| "no_commits sh cfg Hotfix g branchName = branchesMatch sh g branchName (mainBranch cfg)"
| "no_commits sh cfg k g branchName = branchesMatch sh g branchName (developBranch cfg)"

text \<open>
  The state an outcome ends in, whether the operation returned, and a queue extended
  by several commands.
\<close>

fun final :: "('a, 'w) outcome \<Rightarrow> 'w gitflow" where
  "final (Exited e g) = g"
| "final (Returned x g) = g"

fun succeeded :: "('a, 'w) outcome \<Rightarrow> bool" where
  "succeeded (Exited e g) = False"
| "succeeded (Returned x g) = True"

definition enqueue :: "string list \<Rightarrow> 'w gitflow \<Rightarrow> 'w gitflow" where
  "enqueue cs g = g\<lparr>commands := commands g @ cs\<rparr>"

text \<open>
  The commands one step appends when it succeeds: a checkout of a branch other than
  the current one, a merge step, the deletion of the finished branch.
\<close>

definition can_checkout :: "'w shell \<Rightarrow> 'w gitflow \<Rightarrow> string \<Rightarrow> bool" where
  "can_checkout sh g branch =
     (if getCurrentBranchName sh g = branch then True
      else branchExistsLocal sh g branch \<and> checkWorkingTreeClean sh g = Returned True g)"

definition checkout_cmds :: "'w shell \<Rightarrow> 'w gitflow \<Rightarrow> string \<Rightarrow> string list" where
  "checkout_cmds sh g branch =
     (if getCurrentBranchName sh g = branch then [] else [''git checkout '' @ branch, ''git pull''])"

definition merge_cmds :: "string \<Rightarrow> string \<Rightarrow> string list" where
  "merge_cmds sourceBranch targetBranch =
     [''git checkout '' @ targetBranch, ''git merge --no-ff '' @ sourceBranch]"

definition push_cmds :: "'w shell \<Rightarrow> config \<Rightarrow> 'w gitflow \<Rightarrow> string list" where
  "push_cmds sh cfg g =
     (if pushBranches cfg then [''git push origin '' @ getCurrentBranchName sh g] else [])"

definition delete_cmds :: "config \<Rightarrow> string \<Rightarrow> string list" where
  "delete_cmds cfg branchName =
     [''git branch -d '' @ branchName] @
     (if pushBranches cfg then [''git push origin --delete '' @ branchName] else [])"

definition tag_cmd :: "string \<Rightarrow> string" where
  "tag_cmd version = ''git tag -a v'' @ version @ '' -m '' @ [CHR 0x22] @ ''v'' @ version @ [CHR 0x22]"

text \<open>
  The strict semantic versions in words: three numbers separated by dots, a number
  being \<open>0\<close> or a digit string that does not start with \<open>0\<close>.
\<close>

definition is_digit :: "char \<Rightarrow> bool" where
  "is_digit c = in_range CHR ''0'' CHR ''9'' c"

fun is_number :: "string \<Rightarrow> bool" where
  "is_number [] = False"
| "is_number (d # ds) =
     (if ds = [] then is_digit d else in_range CHR ''1'' CHR ''9'' d \<and> list_all is_digit ds)"

definition is_version :: "string \<Rightarrow> bool" where
  "is_version s =
     (\<exists>a b c. s = a @ ''.'' @ b @ ''.'' @ c \<and> is_number a \<and> is_number b \<and> is_number c)"

section \<open>An example repository\<close>

text \<open>
  A small stand-in for git, to run the workflows on concrete inputs: the checked-out
  branch, the local branches with their hashes, the output of \<^verbatim>\<open>git status --porcelain\<close>
  and of \<^verbatim>\<open>git diff --name-only --diff-filter=U\<close>, and the queued commands that fail
  when they are run. It answers the queries and records nothing else.
\<close>

record repo =
  current :: string
  branches :: "(string \<times> string) list"
  status_out :: string
  unmerged_out :: string
  failing :: "string list"

definition ok :: "string \<Rightarrow> shell_result" where
  "ok out = \<lparr>code = 0, stdout = out, stderr = []\<rparr>"

definition fatal :: "string \<Rightarrow> shell_result" where
  "fatal msg = \<lparr>code = 128, stdout = [], stderr = msg\<rparr>"

definition rev_parse :: "repo \<Rightarrow> string \<Rightarrow> shell_result" where
  "rev_parse r ref =
     (case map_of (branches r) ref of
        None \<Rightarrow> fatal ''fatal: bad revision''
      | Some h \<Rightarrow> ok (h @ [CHR 0x0A]))"

definition git :: "repo shell" where
  "git command r =
     (if command = ''git branch --show-current'' then (ok (current r @ [CHR 0x0A]), r)
      else if command = ''git status --porcelain'' then (ok (status_out r), r)
      else if command = ''git diff --name-only --diff-filter=U'' then (ok (unmerged_out r), r)
      else if take 23 command = ''git rev-parse --verify '' then (rev_parse r (drop 23 command), r)
      else if take 14 command = ''git rev-parse '' then (rev_parse r (drop 14 command), r)
      else if List.member (failing r) command then (\<lparr>code = 1, stdout = ''CONFLICT'', stderr = []\<rparr>, r)
      else (ok [], r))"

definition example_repo :: repo where
  "example_repo =
     \<lparr>current = ''develop'',
      branches = [(''main'', ''a1''), (''develop'', ''b2''), (''staging'', ''c3''),
                  (''release/1.0.0'', ''d4'')],
      status_out = [], unmerged_out = [], failing = []\<rparr>"

text \<open>The default configuration of the source, and the same with a staging branch.\<close>

definition defaultConfig :: config where
  "defaultConfig =
     \<lparr>mainBranch = ''main'', developBranch = ''develop'', useStaging = False,
      stagingBranch = None, pushBranches = True, createBranches = False, debug = False,
      prefixes = \<lparr>feature = ''feature/'', release = ''release/'', bugfix = ''bugfix/'',
                  hotfix = ''hotfix/''\<rparr>\<rparr>"

definition stagingConfig :: config where
  "stagingConfig = defaultConfig\<lparr>useStaging := True, stagingBranch := Some ''staging''\<rparr>"

section \<open>The matcher decides the language\<close>

lemma nullable_lang: "nullable r \<longleftrightarrow> [] \<in> lang r"
  by (induction r) (auto intro: reps.reps_nil)

lemma reps_cons:
  "c # w \<in> reps A \<longleftrightarrow> (\<exists>u v. w = u @ v \<and> c # u \<in> A \<and> v \<in> reps A)"
proof
  assume "c # w \<in> reps A"
  then show "\<exists>u v. w = u @ v \<and> c # u \<in> A \<and> v \<in> reps A"
  proof (induction "c # w" arbitrary: w rule: reps.induct)
    case (reps_app u v)
    show ?case
    proof (cases u)
      case Nil
      with reps_app show ?thesis by simp
    next
      case (Cons d u')
      with reps_app show ?thesis by auto
    qed
  qed
next
  assume "\<exists>u v. w = u @ v \<and> c # u \<in> A \<and> v \<in> reps A"
  then obtain u v where "w = u @ v" "c # u \<in> A" "v \<in> reps A" by blast
  then show "c # w \<in> reps A"
    using reps.reps_app [of "c # u" A v] by simp
qed

lemma lang_deriv: "w \<in> lang (deriv c r) \<longleftrightarrow> c # w \<in> lang r"
proof (induction r arbitrary: w)
  case (Seq r s)
  then show ?case
    by (auto simp: nullable_lang Cons_eq_append_conv)
next
  case (Star r)
  then show ?case by (auto simp: reps_cons)
qed auto

lemma test_anchored_lang: "test_anchored r s \<longleftrightarrow> s \<in> lang r"
  by (induction s arbitrary: r) (simp_all add: nullable_lang lang_deriv)

subsection \<open>The language of the version pattern\<close>

lemma lang_digits: "lang (Star (Class [(CHR ''0'', CHR ''9'')])) = {s. list_all is_digit s}"
proof -
  have "(s \<in> reps {[c] | c. in_range CHR ''0'' CHR ''9'' c}) = list_all is_digit s" for s
  proof (induction s)
    case Nil
    show ?case by (simp add: reps.reps_nil)
  next
    case (Cons d ds)
    then show ?case by (auto simp: reps_cons is_digit_def)
  qed
  then show ?thesis by auto
qed

lemma code_unit_eq_iff: "code_unit c = code_unit d \<longleftrightarrow> c = d"
  by (simp add: code_unit_def)

lemma only_char_in_range: "in_range c c d \<longleftrightarrow> d = c"
proof -
  have "in_range c c d \<longleftrightarrow> code_unit d = code_unit c"
    unfolding in_range_def by auto
  then show ?thesis by (simp add: code_unit_eq_iff)
qed

lemma digit_cases: "is_digit d \<longleftrightarrow> d = CHR ''0'' \<or> in_range CHR ''1'' CHR ''9'' d"
proof -
  have "code_unit d = 48 \<longleftrightarrow> d = CHR ''0''"
    using code_unit_eq_iff [of d "CHR ''0''"] by (simp add: code_unit_def)
  then show ?thesis
    unfolding is_digit_def in_range_def by (auto simp: code_unit_def)
qed

lemma lang_numberRegex_set:
  "lang numberRegex =
     {''0''} \<union> {d # ds | d ds. in_range CHR ''1'' CHR ''9'' d \<and> list_all is_digit ds}"
proof -
  have single: "{u @ v | u v. u \<in> {[c] | c. P c} \<and> v \<in> B} = {c # v | c v. P c \<and> v \<in> B}"
    for P :: "char \<Rightarrow> bool" and B :: "string set"
  proof (rule set_eqI)
    fix x
    show "x \<in> {u @ v | u v. u \<in> {[c] | c. P c} \<and> v \<in> B}
      \<longleftrightarrow> x \<in> {c # v | c v. P c \<and> v \<in> B}"
    proof
      assume "x \<in> {u @ v | u v. u \<in> {[c] | c. P c} \<and> v \<in> B}"
      then obtain c v where "x = [c] @ v" "P c" "v \<in> B" by blast
      then show "x \<in> {c # v | c v. P c \<and> v \<in> B}" by simp
    next
      assume "x \<in> {c # v | c v. P c \<and> v \<in> B}"
      then obtain c v where "x = [c] @ v" "P c" "v \<in> B" by auto
      then show "x \<in> {u @ v | u v. u \<in> {[c] | c. P c} \<and> v \<in> B}" by blast
    qed
  qed
  have zero: "in_range CHR ''0'' CHR ''0'' c \<longleftrightarrow> c = CHR ''0''" for c
    by (rule only_char_in_range)
  have c0: "lang (Class [(CHR ''0'', CHR ''0'')]) = {''0''}"
    by (auto simp: zero)
  have c19: "lang (Class [(CHR ''1'', CHR ''9'')]) = {[c] | c. in_range CHR ''1'' CHR ''9'' c}"
    by simp
  show ?thesis
    unfolding numberRegex_def lang.simps(4,5) c0 c19 lang_digits single
    by auto
qed

lemma lang_numberRegex: "s \<in> lang numberRegex \<longleftrightarrow> is_number s"
proof (cases s)
  case Nil
  then show ?thesis by (simp add: lang_numberRegex_set)
next
  case (Cons d ds)
  then show ?thesis
    by (auto simp: lang_numberRegex_set digit_cases)
qed

lemma lang_versionRegex: "s \<in> lang versionRegex \<longleftrightarrow> is_version s"
proof -
  have "in_range CHR ''.'' CHR ''.'' c \<longleftrightarrow> c = CHR ''.''" for c
    by (rule only_char_in_range)
  then have dot: "lang dotRegex = {''.''}"
    unfolding dotRegex_def by auto
  show ?thesis
    unfolding versionRegex_def is_version_def lang.simps(5) dot
    by (simp add: lang_numberRegex) blast
qed

lemma validateVersion_iff: "validateVersion (JSString s) \<longleftrightarrow> is_version s"
  by (simp add: validateVersion_def test_anchored_lang lang_versionRegex)


section \<open>Version validation\<close>

text \<open>
  C9. \<^verbatim>\<open>isValidVersion\<close> fails on more than one token; on a single token it fails unless
  the token matches \<^verbatim>\<open>^(0|[1-9]\d*)\.(0|[1-9]\d*)\.(0|[1-9]\d*)$\<close>, and returns the
  token when it matches. Matching the pattern is being three dot-separated numbers
  without leading zeros, so \<^verbatim>\<open>1.2\<close>, \<^verbatim>\<open>01.2.3\<close> and \<^verbatim>\<open>1.2.3-rc1\<close> are rejected.
\<close>

theorem isValidVersion_semver:
  "isValidVersion (t1 # t2 # ts) = Inl (CannotContainSpaces (join '' '' (t1 # t2 # ts)))
   \<and> isValidVersion [token] =
       (if token \<in> lang versionRegex then Inr (JSString token) else Inl (InvalidVersion token))
   \<and> (token \<in> lang versionRegex \<longleftrightarrow> is_version token)
   \<and> class_of (CannotContainSpaces (join '' '' (t1 # t2 # ts))) = ValidationError
   \<and> class_of (InvalidVersion token) = ValidationError
   \<and> ''1.2'' \<notin> lang versionRegex \<and> ''01.2.3'' \<notin> lang versionRegex
   \<and> ''1.2.3-rc1'' \<notin> lang versionRegex"
proof -
  have rejected: "\<not> test_anchored versionRegex ''1.2''" "\<not> test_anchored versionRegex ''01.2.3''"
    "\<not> test_anchored versionRegex ''1.2.3-rc1''"
    by code_simp+
  show ?thesis
    using rejected
    by (simp add: isValidVersion_def validateVersion_def test_anchored_lang lang_versionRegex)
qed

theorem isValidVersion_semver_witness:
  "isValidVersion [''1.2.3'', ''rc1''] = Inl (CannotContainSpaces ''1.2.3 rc1'')
   \<and> isValidVersion [''10.0.37''] = Inr (JSString ''10.0.37'')
   \<and> isValidVersion [''01.2.3''] = Inl (InvalidVersion ''01.2.3'')"
proof -
  have yes: "''10.0.37'' \<in> lang versionRegex"
    unfolding test_anchored_lang [symmetric] by code_simp
  have no: "''01.2.3'' \<notin> lang versionRegex"
    unfolding test_anchored_lang [symmetric] by code_simp
  show ?thesis
    using isValidVersion_semver [of "''1.2.3''" "''rc1''" "[]" "''10.0.37''"]
      isValidVersion_semver [of "''1.2.3''" "''rc1''" "[]" "''01.2.3''"] yes no
    by simp
qed

section \<open>Sequencing, queue and queries\<close>

lemma andThen_simps [simp]:
  "andThen (Exited e g) f = Exited e g"
  "andThen (Returned x g) f = f x g"
  by (simp_all add: andThen_def)


lemma lift_simps [simp]:
  "lift (Inl e) g = Exited e g"
  "lift (Inr x) g = Returned x g"
  by (simp_all add: lift_def)

lemma map_sum_Inr_iff: "map_sum f h r = Inr v \<longleftrightarrow> (\<exists>y. r = Inr y \<and> v = h y)"
  by (cases r) auto

lemma addCommand_enqueue: "addCommand c g = enqueue [c] g"
  by (simp add: addCommand_def enqueue_def)

lemma enqueue_simps [simp]:
  "enqueue [] g = g"
  "enqueue cs (enqueue ds g) = enqueue (ds @ cs) g"
  "commands (enqueue cs g) = commands g @ cs"
  "world (enqueue cs g) = world g"
  "executed (enqueue cs g) = executed g"
  by (simp_all add: enqueue_def)

lemma new_GitFlow_simps [simp]:
  "commands (new_GitFlow w) = []"
  "world (new_GitFlow w) = w"
  "executed (new_GitFlow w) = []"
  by (simp_all add: new_GitFlow_def)

text \<open>The queries read the repository only, so the queue does not matter to them.\<close>

lemma query_enqueue [simp]: "query sh (enqueue cs g) c = query sh g c"
  by (simp add: query_def)

lemma queries_enqueue [simp]:
  "getCurrentBranchName sh (enqueue cs g) = getCurrentBranchName sh g"
  "branchExistsLocal sh (enqueue cs g) b = branchExistsLocal sh g b"
  "branchesMatch sh (enqueue cs g) b1 b2 = branchesMatch sh g b1 b2"
  by (simp_all add: getCurrentBranchName_def branchExistsLocal_def branchesMatch_def)

lemma clean_iff:
  "checkWorkingTreeClean sh g = Returned True g
     \<longleftrightarrow> trim (stdout (query sh g ''git status --porcelain'')) = []"
  "checkWorkingTreeClean sh g = Exited UncommittedChanges g
     \<longleftrightarrow> trim (stdout (query sh g ''git status --porcelain'')) \<noteq> []"
  by (simp_all add: checkWorkingTreeClean_def Let_def)

lemma clean_cases:
  "checkWorkingTreeClean sh g = Returned True g
   \<or> checkWorkingTreeClean sh g = Exited UncommittedChanges g"
  by (simp add: checkWorkingTreeClean_def Let_def)

lemma can_checkout_enqueue [simp]: "can_checkout sh (enqueue cs g) b = can_checkout sh g b"
  by (simp add: can_checkout_def clean_iff)

lemma checkout_cmds_enqueue [simp]: "checkout_cmds sh (enqueue cs g) b = checkout_cmds sh g b"
  by (simp add: checkout_cmds_def)

lemma push_cmds_enqueue [simp]: "push_cmds sh cfg (enqueue cs g) = push_cmds sh cfg g"
  by (simp add: push_cmds_def)


lemma conflicts_enqueue:
  "checkMergeConflicts sh g = Returned False g \<Longrightarrow>
     checkMergeConflicts sh (enqueue cs g) = Returned False (enqueue cs g)"
  "checkMergeConflicts sh g = Returned True g \<Longrightarrow>
     checkMergeConflicts sh (enqueue cs g) = Returned True (enqueue cs g)"
  "checkMergeConflicts sh g = Exited (ShellFailure m) g \<Longrightarrow>
     checkMergeConflicts sh (enqueue cs g) = Exited (ShellFailure m) (enqueue cs g)"
  by (auto simp: checkMergeConflicts_def Let_def split: if_splits)

section \<open>What each step appends\<close>

lemma checkoutBranch_eq:
  "checkoutBranch sh b g =
     (if can_checkout sh g b then Returned () (enqueue (checkout_cmds sh g b) g)
      else Exited (if \<not> branchExistsLocal sh g b then DoesNotExist b else UncommittedChanges) g)"
  using clean_cases [of sh g]
  by (auto simp: can_checkout_def checkoutBranch_def checkout_cmds_def addCommand_enqueue)

lemma checkoutToMain_eq:
  "checkoutToMain sh cfg g =
     (if mainBranch cfg = [] then Exited MainBranchNotFound g
      else if can_checkout sh g (mainBranch cfg)
        then Returned () (enqueue (checkout_cmds sh g (mainBranch cfg)) g)
      else Exited (if \<not> branchExistsLocal sh g (mainBranch cfg) then DoesNotExist (mainBranch cfg)
                   else UncommittedChanges) g)"
  by (auto simp: checkoutToMain_def checkoutBranch_eq) (auto simp: can_checkout_def checkout_cmds_def)

lemma checkoutToDevelop_eq:
  "checkoutToDevelop sh cfg g =
     (if developBranch cfg = [] then Exited DevelopBranchNotFound g
      else if can_checkout sh g (developBranch cfg)
        then Returned () (enqueue (checkout_cmds sh g (developBranch cfg)) g)
      else Exited (if \<not> branchExistsLocal sh g (developBranch cfg)
                     then DoesNotExist (developBranch cfg)
                   else UncommittedChanges) g)"
  by (auto simp: checkoutToDevelop_def checkoutBranch_eq) (auto simp: can_checkout_def checkout_cmds_def)

lemma checkoutToStaging_ok:
  "useStaging cfg \<Longrightarrow> stagingBranch cfg = Some s \<Longrightarrow> s \<noteq> [] \<Longrightarrow> can_checkout sh g s \<Longrightarrow>
     checkoutToStaging sh cfg g = Returned () (enqueue (checkout_cmds sh g s) g)"
  by (auto simp: checkoutToStaging_def checkoutBranch_eq stagingBranchVal_def)
     (simp add: checkout_cmds_def)

lemma mergeBranch_ok:
  "checkMergeConflicts sh g = Returned False g \<Longrightarrow>
     mergeBranch sh cfg src tgt g =
       Returned () (enqueue (merge_cmds src tgt @ push_cmds sh cfg g) g)"
  by (simp add: mergeBranch_def addCommand_enqueue conflicts_enqueue pushBranch_def push_cmds_def
        merge_cmds_def)

lemma mergeBranch_conflict:
  "checkMergeConflicts sh g = Returned True g \<Longrightarrow>
     mergeBranch sh cfg src tgt g = Exited MergeConflicts (enqueue (merge_cmds src tgt) g)"
  by (simp add: mergeBranch_def addCommand_enqueue conflicts_enqueue merge_cmds_def)


lemma deleteBranch_ok:
  "branchExistsLocal sh g b \<Longrightarrow>
     deleteBranch sh cfg b g = Returned () (enqueue (delete_cmds cfg b) g)"
  by (simp add: deleteBranch_def addCommand_enqueue delete_cmds_def)

lemma addTag_eq: "addTag v g = Returned () (enqueue [tag_cmd v] g)"
  by (simp add: addTag_def addCommand_enqueue tag_cmd_def)

text \<open>Running the queue leaves the queue as it is, and fails with the shell's message only.\<close>

lemma commands_run_queue: "commands (final (run_queue sh cs g)) = commands g"
  by (induction cs arbitrary: g) (simp_all add: Let_def)

lemma commands_runCommands: "commands (final (runCommands sh cfg g)) = commands g"
  by (simp add: runCommands_def commands_run_queue)





lemma validation_errors:
  "isValidBranchName n = Inl e \<Longrightarrow> class_of e = ValidationError"
  "isValidVersion version = Inl e \<Longrightarrow> class_of e = ValidationError"
  by (auto simp: isValidBranchName_def isValidVersion_def Let_def split: if_splits)

lemma validation_not_conflict [simp]:
  "isValidBranchName n \<noteq> Inl MergeConflicts"
  "isValidVersion version \<noteq> Inl MergeConflicts"
  using validation_errors [of _ MergeConflicts] by auto


section \<open>Branch-name validation\<close>

lemma isValidBranchName_tokens:
  "isValidBranchName (JSArray (t1 # t2 # ts)) = Inl (CannotContainSpaces (join '' '' (t1 # t2 # ts)))"
  "isValidBranchName (JSArray [t]) =
     (if list_all (in_class allowedChars) t then Inr True else Inl (InvalidBranchName t))"
  by (simp_all add: isValidBranchName_def invalidChars_test_def list_ex_iff list_all_iff)

lemma isValidBranchName_returns_True: "isValidBranchName n = Inr b \<Longrightarrow> b"
  by (auto simp: isValidBranchName_def Let_def split: if_splits)

lemma validated_name_is_true:
  "k \<noteq> Release \<Longrightarrow> validate k tokens = Inr v \<Longrightarrow> prefix_of cfg k @ toString v = prefix_of cfg k @ ''true''"
  by (cases k) (auto simp: map_sum_Inr_iff dest: isValidBranchName_returns_True)

text \<open>
  C1. The name \<^verbatim>\<open>login\<close> is accepted, and what the validator returns is \<^verbatim>\<open>true\<close>, not
  the name: \<^verbatim>\<open>feature:start login\<close> on the example repository creates the branch
  \<^verbatim>\<open>feature/true\<close>.
\<close>

theorem startFeature_login_creates_feature_true:
  "isValidBranchName (JSArray [''login'']) = Inr True
   \<and> start git defaultConfig Feature [''login''] example_repo =
       Returned ()
         \<lparr>commands = [''git checkout -b feature/true develop''], world = example_repo,
          executed = [''git checkout -b feature/true develop'']\<rparr>"
  by code_simp

section \<open>The comparison of hashes before a finish\<close>

lemma finish_no_commits:
  assumes "k \<noteq> Release"
      and "validate k tokens = Inr v"
      and "branchExistsLocal sh (new_GitFlow w) (prefix_of cfg k @ toString v)"
      and "branchesMatch sh (new_GitFlow w) (prefix_of cfg k @ toString v) (base_of cfg k)"
  shows "finish sh cfg k tokens w =
           Exited (NoCommitsYet (prefix_of cfg k @ toString v)) (new_GitFlow w)"
  using assms
  by (cases k)
     (auto simp: finishFeature_def finishBugfix_def finishHotfix_def map_sum_Inr_iff)

text \<open>
  C2. \<^verbatim>\<open>release:finish 1.0.0\<close> where \<^verbatim>\<open>release/1.0.0\<close> and \<^verbatim>\<open>develop\<close> have the same hash:
  the workflow does not stop, it queues both merges and runs the queue.
\<close>

theorem finishRelease_without_commits_merges:
  "branchesMatch git
     (new_GitFlow (example_repo\<lparr>branches :=
        [(''main'', ''a1''), (''develop'', ''b2''), (''release/1.0.0'', ''b2'')]\<rparr>))
     ''release/1.0.0'' ''develop''
   \<and> succeeded (finish git defaultConfig Release [''1.0.0'']
        (example_repo\<lparr>branches :=
           [(''main'', ''a1''), (''develop'', ''b2''), (''release/1.0.0'', ''b2'')]\<rparr>))
   \<and> executed (final (finish git defaultConfig Release [''1.0.0'']
        (example_repo\<lparr>branches :=
           [(''main'', ''a1''), (''develop'', ''b2''), (''release/1.0.0'', ''b2'')]\<rparr>))) =
       [''git checkout main'', ''git pull'', ''git checkout main'',
        ''git merge --no-ff release/1.0.0'', ''git push origin develop'', tag_cmd ''1.0.0'',
        ''git checkout develop'', ''git merge --no-ff release/1.0.0'',
        ''git push origin develop'', ''git branch -d release/1.0.0'',
        ''git push origin --delete release/1.0.0'']"
  by code_simp

section \<open>The push after a merge\<close>

text \<open>
  C4. \<^verbatim>\<open>release:finish 1.0.0\<close> with \<^verbatim>\<open>pushBranches\<close> set, started on \<^verbatim>\<open>develop\<close>: the
  command queued after the merge into \<^verbatim>\<open>main\<close> pushes \<^verbatim>\<open>develop\<close>, the branch checked
  out when the command was queued, and no command pushes \<^verbatim>\<open>main\<close>.
\<close>

theorem finishRelease_pushes_current_branch:
  "pushBranches defaultConfig
   \<and> commands (final (finish git defaultConfig Release [''1.0.0''] example_repo)) =
       [''git checkout main'', ''git pull'', ''git checkout main'',
        ''git merge --no-ff release/1.0.0'', ''git push origin develop'', tag_cmd ''1.0.0'',
        ''git checkout develop'', ''git merge --no-ff release/1.0.0'',
        ''git push origin develop'', ''git branch -d release/1.0.0'',
        ''git push origin --delete release/1.0.0'']"
  by code_simp

section \<open>Checking out the current branch\<close>

text \<open>
  C10. For the branch that is checked out, \<^verbatim>\<open>checkoutBranch\<close> returns at once: the state
  is unchanged, so nothing is queued, and the result does not depend on whether the
  branch exists locally or the working tree is clean. The same holds for the switch
  command and for the checkout of the base branch in \<^verbatim>\<open>checkoutToDevelop\<close> and
  \<^verbatim>\<open>checkoutToMain\<close> (with a configured, non-empty branch name).
\<close>

theorem checkoutBranch_current_noop:
  assumes "getCurrentBranchName sh g = branch"
  shows "checkoutBranch sh branch g = Returned () g
       \<and> (g = new_GitFlow w \<longrightarrow> switch sh branch w = Returned () g)
       \<and> (developBranch cfg = branch \<and> branch \<noteq> [] \<longrightarrow> checkoutToDevelop sh cfg g = Returned () g)
       \<and> (mainBranch cfg = branch \<and> branch \<noteq> [] \<longrightarrow> checkoutToMain sh cfg g = Returned () g)"
  using assms
  by (auto simp: checkoutBranch_def switch_def checkoutToDevelop_def checkoutToMain_def)

theorem checkoutBranch_current_noop_witness:
  "\<not> branchExistsLocal git (new_GitFlow (example_repo\<lparr>branches := [], status_out := '' M a.txt''\<rparr>)) ''develop''
   \<and> checkWorkingTreeClean git (new_GitFlow (example_repo\<lparr>branches := [], status_out := '' M a.txt''\<rparr>))
       = Exited UncommittedChanges (new_GitFlow (example_repo\<lparr>branches := [], status_out := '' M a.txt''\<rparr>))
   \<and> checkoutBranch git ''develop'' (new_GitFlow (example_repo\<lparr>branches := [], status_out := '' M a.txt''\<rparr>))
       = Returned () (new_GitFlow (example_repo\<lparr>branches := [], status_out := '' M a.txt''\<rparr>))
   \<and> switch git ''develop'' (example_repo\<lparr>branches := [], status_out := '' M a.txt''\<rparr>)
       = Returned () (new_GitFlow (example_repo\<lparr>branches := [], status_out := '' M a.txt''\<rparr>))
   \<and> checkoutToDevelop git defaultConfig (new_GitFlow (example_repo\<lparr>branches := [], status_out := '' M a.txt''\<rparr>))
       = Returned () (new_GitFlow (example_repo\<lparr>branches := [], status_out := '' M a.txt''\<rparr>))
   \<and> checkoutToMain git defaultConfig
         (new_GitFlow (example_repo\<lparr>current := ''main'', status_out := '' M a.txt''\<rparr>))
       = Returned () (new_GitFlow (example_repo\<lparr>current := ''main'', status_out := '' M a.txt''\<rparr>))"
proof -
  let ?r = "example_repo\<lparr>branches := [], status_out := '' M a.txt''\<rparr>"
  let ?m = "example_repo\<lparr>current := ''main'', status_out := '' M a.txt''\<rparr>"
  have on_develop: "getCurrentBranchName git (new_GitFlow ?r) = ''develop''"
    by code_simp
  have on_main: "getCurrentBranchName git (new_GitFlow ?m) = ''main''"
    by code_simp
  have missing: "\<not> branchExistsLocal git (new_GitFlow ?r) ''develop''"
    by code_simp
  have dirty: "checkWorkingTreeClean git (new_GitFlow ?r) = Exited UncommittedChanges (new_GitFlow ?r)"
    by code_simp
  have names: "developBranch defaultConfig = ''develop''" "mainBranch defaultConfig = ''main''"
    by (simp_all add: defaultConfig_def)
  show ?thesis
    using checkoutBranch_current_noop [OF on_develop, of ?r defaultConfig]
      checkoutBranch_current_noop [OF on_main, of ?m defaultConfig] missing dirty names
    by simp
qed

section \<open>The switch command\<close>

text \<open>
  C3, as the code has it. When the target is not the branch that is checked out,
  \<^verbatim>\<open>switch\<close> fails with a state error if the target does not exist locally, and also
  if it exists and the working tree is dirty. When the target is the branch that is
  checked out, \<^verbatim>\<open>switch\<close> returns at once, without a check and without an error.
\<close>

theorem switch_state_errors:
  "(getCurrentBranchName sh (new_GitFlow w) \<noteq> branch
      \<and> \<not> branchExistsLocal sh (new_GitFlow w) branch
     \<longrightarrow> switch sh branch w = Exited (DoesNotExist branch) (new_GitFlow w))
   \<and> (getCurrentBranchName sh (new_GitFlow w) \<noteq> branch
      \<and> branchExistsLocal sh (new_GitFlow w) branch
      \<and> checkWorkingTreeClean sh (new_GitFlow w) = Exited UncommittedChanges (new_GitFlow w)
     \<longrightarrow> switch sh branch w = Exited UncommittedChanges (new_GitFlow w))
   \<and> (getCurrentBranchName sh (new_GitFlow w) = branch
     \<longrightarrow> switch sh branch w = Returned () (new_GitFlow w))
   \<and> class_of (DoesNotExist branch) = StateError
   \<and> class_of UncommittedChanges = StateError"
  by (auto simp: switch_def checkoutBranch_def)

theorem switch_state_errors_witness:
  "switch git ''nowhere'' example_repo = Exited (DoesNotExist ''nowhere'') (new_GitFlow example_repo)
   \<and> switch git ''main'' (example_repo\<lparr>status_out := '' M a.txt''\<rparr>)
       = Exited UncommittedChanges (new_GitFlow (example_repo\<lparr>status_out := '' M a.txt''\<rparr>))
   \<and> switch git ''develop'' (example_repo\<lparr>status_out := '' M a.txt''\<rparr>)
       = Returned () (new_GitFlow (example_repo\<lparr>status_out := '' M a.txt''\<rparr>))"
proof -
  let ?d = "example_repo\<lparr>status_out := '' M a.txt''\<rparr>"
  have other: "getCurrentBranchName git (new_GitFlow example_repo) \<noteq> ''nowhere''"
    "getCurrentBranchName git (new_GitFlow ?d) \<noteq> ''main''"
    by code_simp+
  have same: "getCurrentBranchName git (new_GitFlow ?d) = ''develop''"
    by code_simp
  have missing: "\<not> branchExistsLocal git (new_GitFlow example_repo) ''nowhere''"
    by code_simp
  have present: "branchExistsLocal git (new_GitFlow ?d) ''main''"
    by code_simp
  have dirty: "checkWorkingTreeClean git (new_GitFlow ?d) = Exited UncommittedChanges (new_GitFlow ?d)"
    by code_simp
  show ?thesis
    using switch_state_errors [of git example_repo "''nowhere''"]
      switch_state_errors [of git ?d "''main''"]
      switch_state_errors [of git ?d "''develop''"]
      other same missing present dirty
    by simp
qed

text \<open>
  The claim as stated fails on the branch that is checked out: with a dirty working
  tree, switching to it returns without an error.
\<close>

theorem switch_dirty_current_counterexample:
  "checkWorkingTreeClean git (new_GitFlow (example_repo\<lparr>status_out := '' M a.txt''\<rparr>))
     = Exited UncommittedChanges (new_GitFlow (example_repo\<lparr>status_out := '' M a.txt''\<rparr>))
   \<and> switch git ''develop'' (example_repo\<lparr>status_out := '' M a.txt''\<rparr>)
       = Returned () (new_GitFlow (example_repo\<lparr>status_out := '' M a.txt''\<rparr>))"
  by code_simp

section \<open>Starting on a dirty working tree\<close>

text \<open>
  C8, as the code has it. For a valid name and a current branch other than the base
  branch, a start on a dirty working tree fails with a state error before anything is
  queued or run: the branch exists already, the base branch does not exist locally,
  or the working tree has uncommitted changes.
\<close>

theorem start_dirty_off_base:
  assumes "validate k tokens = Inr v"
      and "base_of cfg k \<noteq> []"
      and "getCurrentBranchName sh (new_GitFlow w) \<noteq> base_of cfg k"
      and "checkWorkingTreeClean sh (new_GitFlow w) = Exited UncommittedChanges (new_GitFlow w)"
  shows "start sh cfg k tokens w =
           Exited (if branchExistsLocal sh (new_GitFlow w) (prefix_of cfg k @ toString v)
                     then AlreadyExists (prefix_of cfg k @ toString v)
                   else if \<not> branchExistsLocal sh (new_GitFlow w) (base_of cfg k)
                     then DoesNotExist (base_of cfg k)
                   else UncommittedChanges)
             (new_GitFlow w)
       \<and> class_of (AlreadyExists (prefix_of cfg k @ toString v)) = StateError
       \<and> class_of (DoesNotExist (base_of cfg k)) = StateError
       \<and> class_of UncommittedChanges = StateError"
  using assms
  by (cases k)
     (auto simp: startFeature_def startRelease_def startBugfix_def startHotfix_def
        checkoutToDevelop_def checkoutToMain_def checkoutBranch_def map_sum_Inr_iff)

theorem start_dirty_off_base_witness:
  "start git defaultConfig Release [''2.0.0'']
     (example_repo\<lparr>current := ''main'', status_out := '' M a.txt''\<rparr>)
   = Exited UncommittedChanges
       (new_GitFlow (example_repo\<lparr>current := ''main'', status_out := '' M a.txt''\<rparr>))"
proof -
  let ?r = "example_repo\<lparr>current := ''main'', status_out := '' M a.txt''\<rparr>"
  have valid: "validate Release [''2.0.0''] = Inr (JSString ''2.0.0'')"
    by code_simp
  have base: "base_of defaultConfig Release \<noteq> []"
    by code_simp
  have off: "getCurrentBranchName git (new_GitFlow ?r) \<noteq> base_of defaultConfig Release"
    by code_simp
  have dirty: "checkWorkingTreeClean git (new_GitFlow ?r) = Exited UncommittedChanges (new_GitFlow ?r)"
    by code_simp
  have fresh: "\<not> branchExistsLocal git (new_GitFlow ?r) (prefix_of defaultConfig Release @ toString (JSString ''2.0.0''))"
    by code_simp
  have there: "branchExistsLocal git (new_GitFlow ?r) (base_of defaultConfig Release)"
    by code_simp
  show ?thesis
    using start_dirty_off_base [OF valid base off dirty] fresh there
    by simp
qed

text \<open>
  The claim as stated fails on the base branch: \<^verbatim>\<open>release:start 2.0.0\<close> on \<^verbatim>\<open>develop\<close>
  with a dirty working tree queues the creation of the branch and runs it.
\<close>

theorem start_dirty_on_base_counterexample:
  "checkWorkingTreeClean git (new_GitFlow (example_repo\<lparr>status_out := '' M a.txt''\<rparr>))
     = Exited UncommittedChanges (new_GitFlow (example_repo\<lparr>status_out := '' M a.txt''\<rparr>))
   \<and> start git defaultConfig Release [''2.0.0''] (example_repo\<lparr>status_out := '' M a.txt''\<rparr>)
       = Returned ()
           \<lparr>commands = [''git checkout -b release/2.0.0 develop''],
            world = example_repo\<lparr>status_out := '' M a.txt''\<rparr>,
            executed = [''git checkout -b release/2.0.0 develop'']\<rparr>"
  by code_simp

section \<open>The order of a release finish\<close>

text \<open>
  C5. With staging enabled, a release finish that reaches the end of its queueing has
  queued, in this order: the merge into \<^verbatim>\<open>mainBranch\<close>, the tag \<^verbatim>\<open>v<version>\<close>, the merge
  into \<^verbatim>\<open>developBranch\<close>, the merge into \<^verbatim>\<open>stagingBranch\<close>, and only then the deletion
  of the release branch. Each merge is preceded by its checkout and followed by its
  push when \<^verbatim>\<open>pushBranches\<close> is set. The queue is the one \<^verbatim>\<open>runCommands\<close> is given,
  whatever running it does.
\<close>

theorem finishRelease_order:
  assumes staging: "useStaging cfg" "stagingBranch cfg = Some staging" "staging \<noteq> []"
      and config: "mainBranch cfg \<noteq> []" "developBranch cfg \<noteq> []"
      and valid: "isValidVersion version = Inr (JSString v)"
      and exists: "branchExistsLocal sh (new_GitFlow w) (release (prefixes cfg) @ v)"
      and checkout: "can_checkout sh (new_GitFlow w) (mainBranch cfg)"
                    "can_checkout sh (new_GitFlow w) (developBranch cfg)"
                    "can_checkout sh (new_GitFlow w) staging"
      and clean: "checkMergeConflicts sh (new_GitFlow w) = Returned False (new_GitFlow w)"
  shows "commands (final (finish sh cfg Release version w)) =
           checkout_cmds sh (new_GitFlow w) (mainBranch cfg) @
           merge_cmds (release (prefixes cfg) @ v) (mainBranch cfg) @
           push_cmds sh cfg (new_GitFlow w) @
           [tag_cmd v] @
           checkout_cmds sh (new_GitFlow w) (developBranch cfg) @
           merge_cmds (release (prefixes cfg) @ v) (developBranch cfg) @
           push_cmds sh cfg (new_GitFlow w) @
           checkout_cmds sh (new_GitFlow w) staging @
           merge_cmds (release (prefixes cfg) @ v) staging @
           push_cmds sh cfg (new_GitFlow w) @
           delete_cmds cfg (release (prefixes cfg) @ v)"
  using assms
  by (simp add: finishRelease_def checkoutToMain_eq checkoutToDevelop_eq checkoutToStaging_ok
        mergeBranch_ok conflicts_enqueue deleteBranch_ok addTag_eq merge_to_staging_def
        stagingBranchVal_def commands_runCommands Let_def)

theorem finishRelease_order_witness:
  "commands (final (finish git stagingConfig Release [''1.0.0''] example_repo)) =
     [''git checkout main'', ''git pull'',
      ''git checkout main'', ''git merge --no-ff release/1.0.0'', ''git push origin develop'',
      tag_cmd ''1.0.0'',
      ''git checkout develop'', ''git merge --no-ff release/1.0.0'', ''git push origin develop'',
      ''git checkout staging'', ''git pull'',
      ''git checkout staging'', ''git merge --no-ff release/1.0.0'', ''git push origin develop'',
      ''git branch -d release/1.0.0'', ''git push origin --delete release/1.0.0'']"
proof -
  let ?g = "new_GitFlow example_repo"
  have staging: "useStaging stagingConfig" "stagingBranch stagingConfig = Some ''staging''"
    "''staging'' \<noteq> []"
    by code_simp+
  have config: "mainBranch stagingConfig \<noteq> []" "developBranch stagingConfig \<noteq> []"
    by code_simp+
  have valid: "isValidVersion [''1.0.0''] = Inr (JSString ''1.0.0'')"
    by code_simp
  have exists: "branchExistsLocal git ?g (release (prefixes stagingConfig) @ ''1.0.0'')"
    by code_simp
  have checkout: "can_checkout git ?g (mainBranch stagingConfig)"
    "can_checkout git ?g (developBranch stagingConfig)" "can_checkout git ?g ''staging''"
    by code_simp+
  have clean: "checkMergeConflicts git ?g = Returned False ?g"
    by code_simp
  have queued:
    "checkout_cmds git ?g (mainBranch stagingConfig) @
     merge_cmds (release (prefixes stagingConfig) @ ''1.0.0'') (mainBranch stagingConfig) @
     push_cmds git stagingConfig ?g @
     [tag_cmd ''1.0.0''] @
     checkout_cmds git ?g (developBranch stagingConfig) @
     merge_cmds (release (prefixes stagingConfig) @ ''1.0.0'') (developBranch stagingConfig) @
     push_cmds git stagingConfig ?g @
     checkout_cmds git ?g ''staging'' @
     merge_cmds (release (prefixes stagingConfig) @ ''1.0.0'') ''staging'' @
     push_cmds git stagingConfig ?g @
     delete_cmds stagingConfig (release (prefixes stagingConfig) @ ''1.0.0'') =
     [''git checkout main'', ''git pull'',
      ''git checkout main'', ''git merge --no-ff release/1.0.0'', ''git push origin develop'',
      tag_cmd ''1.0.0'',
      ''git checkout develop'', ''git merge --no-ff release/1.0.0'', ''git push origin develop'',
      ''git checkout staging'', ''git pull'',
      ''git checkout staging'', ''git merge --no-ff release/1.0.0'', ''git push origin develop'',
      ''git branch -d release/1.0.0'', ''git push origin --delete release/1.0.0'']"
    by code_simp
  show ?thesis
    using finishRelease_order [OF staging config valid exists checkout clean] queued
    by simp
qed

section \<open>A conflict found in a merge step\<close>

text \<open>
  C6. When conflict detection reports unresolved paths and a finish workflow reaches
  its first merge step (the name is valid, the branch exists and passes the comparison
  of hashes, the first target can be checked out), the workflow ends with the conflict
  error. The queue then holds the checkout and the merge only: neither the local nor
  the remote deletion of the branch is queued, and nothing has been run.
\<close>

theorem finish_conflict_aborts:
  assumes conflicts: "checkMergeConflicts sh (new_GitFlow w) = Returned True (new_GitFlow w)"
      and valid: "validate k tokens = Inr v"
      and exists: "branchExistsLocal sh (new_GitFlow w) (prefix_of cfg k @ toString v)"
      and commits: "\<not> no_commits sh cfg k (new_GitFlow w) (prefix_of cfg k @ toString v)"
      and target: "first_target cfg k \<noteq> []" "can_checkout sh (new_GitFlow w) (first_target cfg k)"
  shows "finish sh cfg k tokens w =
           Exited MergeConflicts
             (enqueue (checkout_cmds sh (new_GitFlow w) (first_target cfg k) @
                       merge_cmds (prefix_of cfg k @ toString v) (first_target cfg k))
                (new_GitFlow w))
       \<and> class_of MergeConflicts = MergeConflictError
       \<and> ''git branch -d '' @ prefix_of cfg k @ toString v
             \<notin> set (commands (final (finish sh cfg k tokens w)))
       \<and> ''git push origin --delete '' @ prefix_of cfg k @ toString v
             \<notin> set (commands (final (finish sh cfg k tokens w)))
       \<and> executed (final (finish sh cfg k tokens w)) = []"
proof -
  let ?g = "new_GitFlow w"
  let ?full = "prefix_of cfg k @ toString v"
  let ?T = "first_target cfg k"
  have run: "finish sh cfg k tokens w =
      Exited MergeConflicts (enqueue (checkout_cmds sh ?g ?T @ merge_cmds ?full ?T) ?g)"
    using assms
    by (cases k)
       (auto simp: finishFeature_def finishRelease_def finishBugfix_def finishHotfix_def
          map_sum_Inr_iff checkoutToMain_eq checkoutToDevelop_eq mergeBranch_conflict
          conflicts_enqueue Let_def)
  show ?thesis
    unfolding run by (simp add: checkout_cmds_def merge_cmds_def)
qed

theorem finish_conflict_aborts_witness:
  "finish git stagingConfig Hotfix [''crash'']
     (example_repo\<lparr>branches := (''hotfix/true'', ''e5'') # branches example_repo,
                    unmerged_out := ''a.txt''\<rparr>)
   = Exited MergeConflicts
       \<lparr>commands = [''git checkout main'', ''git pull'', ''git checkout main'',
                    ''git merge --no-ff hotfix/true''],
        world = example_repo\<lparr>branches := (''hotfix/true'', ''e5'') # branches example_repo,
                              unmerged_out := ''a.txt''\<rparr>,
        executed = []\<rparr>"
proof -
  let ?r = "example_repo\<lparr>branches := (''hotfix/true'', ''e5'') # branches example_repo,
                         unmerged_out := ''a.txt''\<rparr>"
  let ?g = "new_GitFlow ?r"
  have conflicts: "checkMergeConflicts git ?g = Returned True ?g"
    by code_simp
  have valid: "validate Hotfix [''crash''] = Inr (JSBool True)"
    by code_simp
  have exists: "branchExistsLocal git ?g (prefix_of stagingConfig Hotfix @ toString (JSBool True))"
    by code_simp
  have commits: "\<not> no_commits git stagingConfig Hotfix ?g
                     (prefix_of stagingConfig Hotfix @ toString (JSBool True))"
    by code_simp
  have target: "first_target stagingConfig Hotfix \<noteq> []"
    "can_checkout git ?g (first_target stagingConfig Hotfix)"
    by code_simp+
  have state:
    "enqueue (checkout_cmds git ?g (first_target stagingConfig Hotfix) @
              merge_cmds (prefix_of stagingConfig Hotfix @ toString (JSBool True))
                (first_target stagingConfig Hotfix)) ?g
     = \<lparr>commands = [''git checkout main'', ''git pull'', ''git checkout main'',
                     ''git merge --no-ff hotfix/true''],
         world = ?r, executed = []\<rparr>"
    by code_simp
  show ?thesis
    using finish_conflict_aborts [OF conflicts valid exists commits target] state
    by simp
qed

section \<open>When the conflict check runs\<close>





end
